theory Spec2Isabelle
  imports Main "HOL-Library.AList" "HOL-Library.Word"
begin

unbundle bit_operations_syntax

section \<open>The affinity codec: AES-256-CBC as the balancers use it\<close>

text \<open>
  Both balancers (\<^verbatim>\<open>loadBalancer.js\<close>, least connections, and the round-robin
  variant) encode the backend a client is bound to with Node's \<^verbatim>\<open>crypto\<close> module:
  \<^verbatim>\<open>
  const SECRET_KEY = crypto.createHash("sha256").update(process.env.ENCRYPTION_KEY).digest();
  const ALGORITHM = "aes-256-cbc";
  const IV = crypto.randomBytes(16);
  \<close>
  The key is a SHA-256 digest (32 bytes) and the initialisation vector 16 random bytes;
  both are fixed when the process starts. They are the two fields of \<open>crypto\<close> below,
  and \<open>wf_crypto\<close> states their lengths. The cipher named by \<^verbatim>\<open>ALGORITHM\<close> is AES with
  a 256-bit key (FIPS-197: 14 rounds on a state of 16 bytes) in cipher block chaining
  mode with PKCS#7 padding. The library is not part of the repository; it is modelled
  here from its specification, bytes as \<open>8 word\<close>.
\<close>

type_synonym byte = "8 word"

subsection \<open>The AES block cipher\<close>

definition sbox :: "byte list" where
  "sbox =
    [
     0x63, 0x7c, 0x77, 0x7b, 0xf2, 0x6b, 0x6f, 0xc5, 0x30, 0x01, 0x67, 0x2b, 0xfe, 0xd7, 0xab, 0x76,
     0xca, 0x82, 0xc9, 0x7d, 0xfa, 0x59, 0x47, 0xf0, 0xad, 0xd4, 0xa2, 0xaf, 0x9c, 0xa4, 0x72, 0xc0,
     0xb7, 0xfd, 0x93, 0x26, 0x36, 0x3f, 0xf7, 0xcc, 0x34, 0xa5, 0xe5, 0xf1, 0x71, 0xd8, 0x31, 0x15,
     0x04, 0xc7, 0x23, 0xc3, 0x18, 0x96, 0x05, 0x9a, 0x07, 0x12, 0x80, 0xe2, 0xeb, 0x27, 0xb2, 0x75,
     0x09, 0x83, 0x2c, 0x1a, 0x1b, 0x6e, 0x5a, 0xa0, 0x52, 0x3b, 0xd6, 0xb3, 0x29, 0xe3, 0x2f, 0x84,
     0x53, 0xd1, 0x00, 0xed, 0x20, 0xfc, 0xb1, 0x5b, 0x6a, 0xcb, 0xbe, 0x39, 0x4a, 0x4c, 0x58, 0xcf,
     0xd0, 0xef, 0xaa, 0xfb, 0x43, 0x4d, 0x33, 0x85, 0x45, 0xf9, 0x02, 0x7f, 0x50, 0x3c, 0x9f, 0xa8,
     0x51, 0xa3, 0x40, 0x8f, 0x92, 0x9d, 0x38, 0xf5, 0xbc, 0xb6, 0xda, 0x21, 0x10, 0xff, 0xf3, 0xd2,
     0xcd, 0x0c, 0x13, 0xec, 0x5f, 0x97, 0x44, 0x17, 0xc4, 0xa7, 0x7e, 0x3d, 0x64, 0x5d, 0x19, 0x73,
     0x60, 0x81, 0x4f, 0xdc, 0x22, 0x2a, 0x90, 0x88, 0x46, 0xee, 0xb8, 0x14, 0xde, 0x5e, 0x0b, 0xdb,
     0xe0, 0x32, 0x3a, 0x0a, 0x49, 0x06, 0x24, 0x5c, 0xc2, 0xd3, 0xac, 0x62, 0x91, 0x95, 0xe4, 0x79,
     0xe7, 0xc8, 0x37, 0x6d, 0x8d, 0xd5, 0x4e, 0xa9, 0x6c, 0x56, 0xf4, 0xea, 0x65, 0x7a, 0xae, 0x08,
     0xba, 0x78, 0x25, 0x2e, 0x1c, 0xa6, 0xb4, 0xc6, 0xe8, 0xdd, 0x74, 0x1f, 0x4b, 0xbd, 0x8b, 0x8a,
     0x70, 0x3e, 0xb5, 0x66, 0x48, 0x03, 0xf6, 0x0e, 0x61, 0x35, 0x57, 0xb9, 0x86, 0xc1, 0x1d, 0x9e,
     0xe1, 0xf8, 0x98, 0x11, 0x69, 0xd9, 0x8e, 0x94, 0x9b, 0x1e, 0x87, 0xe9, 0xce, 0x55, 0x28, 0xdf,
     0x8c, 0xa1, 0x89, 0x0d, 0xbf, 0xe6, 0x42, 0x68, 0x41, 0x99, 0x2d, 0x0f, 0xb0, 0x54, 0xbb, 0x16]"

definition inv_sbox :: "byte list" where
  "inv_sbox =
    [
     0x52, 0x09, 0x6a, 0xd5, 0x30, 0x36, 0xa5, 0x38, 0xbf, 0x40, 0xa3, 0x9e, 0x81, 0xf3, 0xd7, 0xfb,
     0x7c, 0xe3, 0x39, 0x82, 0x9b, 0x2f, 0xff, 0x87, 0x34, 0x8e, 0x43, 0x44, 0xc4, 0xde, 0xe9, 0xcb,
     0x54, 0x7b, 0x94, 0x32, 0xa6, 0xc2, 0x23, 0x3d, 0xee, 0x4c, 0x95, 0x0b, 0x42, 0xfa, 0xc3, 0x4e,
     0x08, 0x2e, 0xa1, 0x66, 0x28, 0xd9, 0x24, 0xb2, 0x76, 0x5b, 0xa2, 0x49, 0x6d, 0x8b, 0xd1, 0x25,
     0x72, 0xf8, 0xf6, 0x64, 0x86, 0x68, 0x98, 0x16, 0xd4, 0xa4, 0x5c, 0xcc, 0x5d, 0x65, 0xb6, 0x92,
     0x6c, 0x70, 0x48, 0x50, 0xfd, 0xed, 0xb9, 0xda, 0x5e, 0x15, 0x46, 0x57, 0xa7, 0x8d, 0x9d, 0x84,
     0x90, 0xd8, 0xab, 0x00, 0x8c, 0xbc, 0xd3, 0x0a, 0xf7, 0xe4, 0x58, 0x05, 0xb8, 0xb3, 0x45, 0x06,
     0xd0, 0x2c, 0x1e, 0x8f, 0xca, 0x3f, 0x0f, 0x02, 0xc1, 0xaf, 0xbd, 0x03, 0x01, 0x13, 0x8a, 0x6b,
     0x3a, 0x91, 0x11, 0x41, 0x4f, 0x67, 0xdc, 0xea, 0x97, 0xf2, 0xcf, 0xce, 0xf0, 0xb4, 0xe6, 0x73,
     0x96, 0xac, 0x74, 0x22, 0xe7, 0xad, 0x35, 0x85, 0xe2, 0xf9, 0x37, 0xe8, 0x1c, 0x75, 0xdf, 0x6e,
     0x47, 0xf1, 0x1a, 0x71, 0x1d, 0x29, 0xc5, 0x89, 0x6f, 0xb7, 0x62, 0x0e, 0xaa, 0x18, 0xbe, 0x1b,
     0xfc, 0x56, 0x3e, 0x4b, 0xc6, 0xd2, 0x79, 0x20, 0x9a, 0xdb, 0xc0, 0xfe, 0x78, 0xcd, 0x5a, 0xf4,
     0x1f, 0xdd, 0xa8, 0x33, 0x88, 0x07, 0xc7, 0x31, 0xb1, 0x12, 0x10, 0x59, 0x27, 0x80, 0xec, 0x5f,
     0x60, 0x51, 0x7f, 0xa9, 0x19, 0xb5, 0x4a, 0x0d, 0x2d, 0xe5, 0x7a, 0x9f, 0x93, 0xc9, 0x9c, 0xef,
     0xa0, 0xe0, 0x3b, 0x4d, 0xae, 0x2a, 0xf5, 0xb0, 0xc8, 0xeb, 0xbb, 0x3c, 0x83, 0x53, 0x99, 0x61,
     0x17, 0x2b, 0x04, 0x7e, 0xba, 0x77, 0xd6, 0x26, 0xe1, 0x69, 0x14, 0x63, 0x55, 0x21, 0x0c, 0x7d]"

definition sub_byte :: "byte \<Rightarrow> byte" where
  "sub_byte b = sbox ! unat b"

definition inv_sub_byte :: "byte \<Rightarrow> byte" where
  "inv_sub_byte b = inv_sbox ! unat b"

text \<open>Multiplication by the polynomial x in the field of 256 elements, modulo
  x^8 + x^4 + x^3 + x + 1, and by the constants of MixColumns and InvMixColumns.\<close>

definition xtime :: "byte \<Rightarrow> byte" where
  "xtime b = (if bit b 7 then push_bit 1 b XOR 0x1b else push_bit 1 b)"

definition mul2 :: "byte \<Rightarrow> byte" where
  "mul2 a = xtime a"

definition mul3 :: "byte \<Rightarrow> byte" where
  "mul3 a = xtime a XOR a"

definition mul9 :: "byte \<Rightarrow> byte" where
  "mul9 a = xtime (xtime (xtime a)) XOR a"

definition mul11 :: "byte \<Rightarrow> byte" where
  "mul11 a = xtime (xtime (xtime a)) XOR xtime a XOR a"

definition mul13 :: "byte \<Rightarrow> byte" where
  "mul13 a = xtime (xtime (xtime a)) XOR xtime (xtime a) XOR a"

definition mul14 :: "byte \<Rightarrow> byte" where
  "mul14 a = xtime (xtime (xtime a)) XOR xtime (xtime a) XOR xtime a"

definition xor_bytes :: "byte list \<Rightarrow> byte list \<Rightarrow> byte list" where
  "xor_bytes a b = map2 (XOR) a b"

text \<open>The state is the list of its 16 bytes, column after column, as the input block
  is read.\<close>

definition shift_rows :: "byte list \<Rightarrow> byte list" where
  "shift_rows s = map (\<lambda>i. s ! i) [0, 5, 10, 15, 4, 9, 14, 3, 8, 13, 2, 7, 12, 1, 6, 11]"

definition inv_shift_rows :: "byte list \<Rightarrow> byte list" where
  "inv_shift_rows s = map (\<lambda>i. s ! i) [0, 13, 10, 7, 4, 1, 14, 11, 8, 5, 2, 15, 12, 9, 6, 3]"

fun mix_columns :: "byte list \<Rightarrow> byte list" where
  "mix_columns (a0 # a1 # a2 # a3 # rest) =
     (mul2 a0 XOR mul3 a1 XOR a2 XOR a3) #
     (a0 XOR mul2 a1 XOR mul3 a2 XOR a3) #
     (a0 XOR a1 XOR mul2 a2 XOR mul3 a3) #
     (mul3 a0 XOR a1 XOR a2 XOR mul2 a3) # mix_columns rest"
| "mix_columns _ = []"

fun inv_mix_columns :: "byte list \<Rightarrow> byte list" where
  "inv_mix_columns (a0 # a1 # a2 # a3 # rest) =
     (mul14 a0 XOR mul11 a1 XOR mul13 a2 XOR mul9 a3) #
     (mul9 a0 XOR mul14 a1 XOR mul11 a2 XOR mul13 a3) #
     (mul13 a0 XOR mul9 a1 XOR mul14 a2 XOR mul11 a3) #
     (mul11 a0 XOR mul13 a1 XOR mul9 a2 XOR mul14 a3) # inv_mix_columns rest"
| "inv_mix_columns _ = []"

definition add_round_key :: "byte list \<Rightarrow> byte list \<Rightarrow> byte list" where
  "add_round_key k s = xor_bytes s k"

definition aes_round :: "byte list \<Rightarrow> byte list \<Rightarrow> byte list" where
  "aes_round k s = add_round_key k (mix_columns (shift_rows (map sub_byte s)))"

definition aes_round_inv :: "byte list \<Rightarrow> byte list \<Rightarrow> byte list" where
  "aes_round_inv k s = map inv_sub_byte (inv_shift_rows (inv_mix_columns (add_round_key k s)))"

definition aes_final_round :: "byte list \<Rightarrow> byte list \<Rightarrow> byte list" where
  "aes_final_round k s = add_round_key k (shift_rows (map sub_byte s))"

definition aes_final_round_inv :: "byte list \<Rightarrow> byte list \<Rightarrow> byte list" where
  "aes_final_round_inv k s = map inv_sub_byte (inv_shift_rows (add_round_key k s))"

function blocks :: "nat \<Rightarrow> 'a list \<Rightarrow> 'a list list" where
  "blocks n xs = (if n = 0 \<or> xs = [] then [] else take n xs # blocks n (drop n xs))"
  by pat_completeness auto
termination
  by (relation "measure (\<lambda>(n, xs). length xs)") auto

declare blocks.simps [simp del]

text \<open>Key expansion for a key of eight words: sixty words, fifteen round keys. Only
  the first seven round constants are used.\<close>

definition rcon :: "nat \<Rightarrow> byte" where
  "rcon j = [0x01, 0x02, 0x04, 0x08, 0x10, 0x20, 0x40] ! (j - 1)"

definition key_schedule_step :: "byte list list \<Rightarrow> nat \<Rightarrow> byte list list" where
  "key_schedule_step w i =
     (let temp = last w;
          t = (if i mod 8 = 0 then
                 xor_bytes (map sub_byte (rotate1 temp)) [rcon (i div 8), 0, 0, 0]
               else if i mod 8 = 4 then map sub_byte temp
               else temp)
      in w @ [xor_bytes (w ! (i - 8)) t])"

definition key_expansion :: "byte list \<Rightarrow> byte list list" where
  "key_expansion key = blocks 16 (concat (foldl key_schedule_step (blocks 4 key) [8..<60]))"

text \<open>
  Encryption adds the first round key, runs thirteen full rounds and the final round
  without MixColumns. Decryption undoes the same steps from the last to the first (the
  inverse cipher of FIPS-197, its operations grouped round by round).
\<close>

definition aes_encrypt_block :: "byte list list \<Rightarrow> byte list \<Rightarrow> byte list" where
  "aes_encrypt_block rks s =
     aes_final_round (last rks)
       (foldl (\<lambda>s k. aes_round k s) (add_round_key (hd rks) s) (butlast (tl rks)))"

definition aes_decrypt_block :: "byte list list \<Rightarrow> byte list \<Rightarrow> byte list" where
  "aes_decrypt_block rks s =
     add_round_key (hd rks)
       (foldr aes_round_inv (butlast (tl rks)) (aes_final_round_inv (last rks) s))"


subsection \<open>Cipher objects\<close>

record crypto =
  SECRET_KEY :: "byte list"
  IV :: "byte list"


datatype crypto_error = InvalidHexLength | WrongFinalBlockLength | BadDecrypt

fun cbc_encrypt ::
  "(byte list \<Rightarrow> byte list) \<Rightarrow> byte list \<Rightarrow> byte list list \<Rightarrow> byte list list" where
  "cbc_encrypt E prev [] = []"
| "cbc_encrypt E prev (p # ps) = (let c = E (xor_bytes p prev) in c # cbc_encrypt E c ps)"

fun cbc_decrypt ::
  "(byte list \<Rightarrow> byte list) \<Rightarrow> byte list \<Rightarrow> byte list list \<Rightarrow> byte list list" where
  "cbc_decrypt D prev [] = []"
| "cbc_decrypt D prev (c # cs) = xor_bytes (D c) prev # cbc_decrypt D c cs"

text \<open>
  A \<^verbatim>\<open>Cipher\<close> or \<^verbatim>\<open>Decipher\<close> object holds the round keys, the chaining block and the
  input it has not yet processed. \<^verbatim>\<open>update\<close> returns the blocks it can finish and
  keeps the rest; \<^verbatim>\<open>final\<close> pads and encrypts what is left, or, when deciphering,
  checks and strips the padding of the last block and throws when there is no whole
  last block (\<^verbatim>\<open>wrong final block length\<close>) or its padding is wrong (\<^verbatim>\<open>bad decrypt\<close>).
  A decipher holds back the last whole block until \<^verbatim>\<open>final\<close>, since it may be padding.
\<close>

record cipher_state =
  round_keys :: "byte list list"
  chain :: "byte list"
  pending :: "byte list"

definition createCipheriv :: "byte list \<Rightarrow> byte list \<Rightarrow> cipher_state" where
  "createCipheriv key iv = \<lparr>round_keys = key_expansion key, chain = iv, pending = []\<rparr>"

definition createDecipheriv :: "byte list \<Rightarrow> byte list \<Rightarrow> cipher_state" where
  "createDecipheriv key iv = \<lparr>round_keys = key_expansion key, chain = iv, pending = []\<rparr>"

definition pkcs7_pad :: "byte list \<Rightarrow> byte list" where
  "pkcs7_pad rest = rest @ replicate (16 - length rest) (of_nat (16 - length rest))"

definition pkcs7_unpad :: "byte list \<Rightarrow> crypto_error + byte list" where
  "pkcs7_unpad p =
     (let n = unat (last p)
      in if n = 0 \<or> 16 < n then Inl BadDecrypt
         else if drop (16 - n) p \<noteq> replicate n (last p) then Inl BadDecrypt
         else Inr (take (16 - n) p))"

definition cipher_update :: "cipher_state \<Rightarrow> byte list \<Rightarrow> byte list \<times> cipher_state" where
  "cipher_update c data =
     (let input = pending c @ data;
          n = length input div 16 * 16;
          out = cbc_encrypt (aes_encrypt_block (round_keys c)) (chain c) (blocks 16 (take n input))
      in (concat out, c\<lparr>chain := last (chain c # out), pending := drop n input\<rparr>))"

definition cipher_final :: "cipher_state \<Rightarrow> byte list" where
  "cipher_final c =
     aes_encrypt_block (round_keys c) (xor_bytes (pkcs7_pad (pending c)) (chain c))"

definition decipher_update :: "cipher_state \<Rightarrow> byte list \<Rightarrow> byte list \<times> cipher_state" where
  "decipher_update c data =
     (let input = pending c @ data;
          n = (if input \<noteq> [] \<and> length input mod 16 = 0 then length input - 16
               else length input div 16 * 16);
          cs = blocks 16 (take n input)
      in (concat (cbc_decrypt (aes_decrypt_block (round_keys c)) (chain c) cs),
          c\<lparr>chain := last (chain c # cs), pending := drop n input\<rparr>))"

definition decipher_final :: "cipher_state \<Rightarrow> crypto_error + byte list" where
  "decipher_final c =
     (if length (pending c) \<noteq> 16 then Inl WrongFinalBlockLength
      else pkcs7_unpad (xor_bytes (aes_decrypt_block (round_keys c) (pending c)) (chain c)))"



subsection \<open>The encodings: hex and UTF-8\<close>

text \<open>
  Two kinds of JavaScript string occur, and both are HOL strings here.

  A \<open>token\<close> is what \<^verbatim>\<open>encrypt\<close> returns, what the cookie \<^verbatim>\<open>lb_server\<close> holds and what
  \<^verbatim>\<open>decrypt\<close> is given. It is the list of its UTF-16 code units: \<open>length\<close> is the
  \<^verbatim>\<open>length\<close> of the JavaScript string, and the hex decoder reads it unit by unit. A
  \<open>char\<close> has 256 values, so the tokens of the model are the strings whose code units
  are all below 256: every token \<^verbatim>\<open>encrypt\<close> makes (hex digits only) and every cookie
  value of ASCII or Latin-1 characters. A cookie value with a code unit from 256 on
  has no counterpart here.

  A \<open>utf8_text\<close> is what \<^verbatim>\<open>encrypt\<close> is given (the url of a backend) and what \<^verbatim>\<open>decrypt\<close>
  returns. It is the list of the bytes of its UTF-8 form.
\<close>

type_synonym token = string

type_synonym utf8_text = string

text \<open>
  \<^verbatim>\<open>'hex'\<close> output is two lower-case digits per byte. \<^verbatim>\<open>'hex'\<close> input of odd length
  makes \<^verbatim>\<open>update\<close> throw; otherwise Node reads digit pairs, in either case of letter,
  and stops at the first pair that is not two hex digits, ignoring what follows.
\<close>

definition hex_digit :: "nat \<Rightarrow> char" where
  "hex_digit n = ''0123456789abcdef'' ! n"

definition hex_encode :: "byte list \<Rightarrow> token" where
  "hex_encode bs = concat (map (\<lambda>b. [hex_digit (unat b div 16), hex_digit (unat b mod 16)]) bs)"

definition unhex :: "char \<Rightarrow> nat option" where
  "unhex c =
     (let n = (of_char c :: nat)
      in if 48 \<le> n \<and> n \<le> 57 then Some (n - 48)
         else if 97 \<le> n \<and> n \<le> 102 then Some (n - 87)
         else if 65 \<le> n \<and> n \<le> 70 then Some (n - 55)
         else None)"

fun hex_decode :: "token \<Rightarrow> byte list" where
  "hex_decode (a # b # rest) =
     (case unhex a of
        None \<Rightarrow> []
      | Some x \<Rightarrow>
          (case unhex b of None \<Rightarrow> [] | Some y \<Rightarrow> of_nat (16 * x + y) # hex_decode rest))"
| "hex_decode _ = []"

text \<open>
  A text being its UTF-8 bytes, \<^verbatim>\<open>'utf8'\<close> input is the bytes themselves. \<^verbatim>\<open>'utf8'\<close>
  output never fails: the decoder copies every well-formed sequence and puts U+FFFD
  (\<open>EF BF BD\<close>) for each maximal ill-formed part. \<open>well_formed_text\<close> holds of the byte
  lists that are UTF-8 as they stand, which is every JavaScript string without a lone
  surrogate; \<open>ascii_text_well_formed\<close> below shows that it includes all ASCII strings.
\<close>

definition utf8_encode :: "utf8_text \<Rightarrow> byte list" where
  "utf8_encode text = map (\<lambda>c. of_nat (of_char c)) text"

definition continuation :: "byte \<Rightarrow> bool" where
  "continuation b = (0x80 \<le> b \<and> b \<le> 0xBF)"

definition second_of3 :: "byte \<Rightarrow> byte \<Rightarrow> bool" where
  "second_of3 b b1 =
     ((if b = 0xE0 then 0xA0 else 0x80) \<le> b1 \<and> b1 \<le> (if b = 0xED then 0x9F else 0xBF))"

definition second_of4 :: "byte \<Rightarrow> byte \<Rightarrow> bool" where
  "second_of4 b b1 =
     ((if b = 0xF0 then 0x90 else 0x80) \<le> b1 \<and> b1 \<le> (if b = 0xF4 then 0x8F else 0xBF))"

definition replacement :: "byte list" where
  "replacement = [0xEF, 0xBF, 0xBD]"

fun utf8_scan :: "byte list \<Rightarrow> byte list" where
  "utf8_scan [] = []"
| "utf8_scan (b # bs) =
     (if b < 0x80 then b # utf8_scan bs
      else if 0xC2 \<le> b \<and> b \<le> 0xDF then
        (case bs of
           [] \<Rightarrow> replacement
         | b1 # r1 \<Rightarrow>
             if continuation b1 then b # b1 # utf8_scan r1 else replacement @ utf8_scan bs)
      else if 0xE0 \<le> b \<and> b \<le> 0xEF then
        (case bs of
           [] \<Rightarrow> replacement
         | b1 # r1 \<Rightarrow>
             if second_of3 b b1 then
               (case r1 of
                  [] \<Rightarrow> replacement
                | b2 # r2 \<Rightarrow>
                    if continuation b2 then b # b1 # b2 # utf8_scan r2
                    else replacement @ utf8_scan r1)
             else replacement @ utf8_scan bs)
      else if 0xF0 \<le> b \<and> b \<le> 0xF4 then
        (case bs of
           [] \<Rightarrow> replacement
         | b1 # r1 \<Rightarrow>
             if second_of4 b b1 then
               (case r1 of
                  [] \<Rightarrow> replacement
                | b2 # r2 \<Rightarrow>
                    if continuation b2 then
                      (case r2 of
                         [] \<Rightarrow> replacement
                       | b3 # r3 \<Rightarrow>
                           if continuation b3 then b # b1 # b2 # b3 # utf8_scan r3
                           else replacement @ utf8_scan r2)
                    else replacement @ utf8_scan r1)
             else replacement @ utf8_scan bs)
      else replacement @ utf8_scan bs)"

definition utf8_decode :: "byte list \<Rightarrow> utf8_text" where
  "utf8_decode bs = map (\<lambda>b. char_of (unat b)) (utf8_scan bs)"


subsection \<open>encrypt and decrypt\<close>

text \<open>
  \<^verbatim>\<open>
  const encrypt = (text) => {
    const cipher = crypto.createCipheriv(ALGORITHM, Buffer.from(SECRET_KEY), IV);
    let encrypted = cipher.update(text, "utf8", "hex");
    encrypted += cipher.final("hex");
    return encrypted;
  };
  \<close>
\<close>

definition encrypt :: "crypto \<Rightarrow> utf8_text \<Rightarrow> token" where
  "encrypt cc text =
     (let cipher = createCipheriv (SECRET_KEY cc) (IV cc);
          (out1, cipher1) = cipher_update cipher (utf8_encode text);
          encrypted = hex_encode out1
      in encrypted @ hex_encode (cipher_final cipher1))"

text \<open>
  \<^verbatim>\<open>
  const decrypt = (text) => {
    try {
      const decipher = crypto.createDecipheriv(ALGORITHM, Buffer.from(SECRET_KEY), IV);
      let decrypted = decipher.update(text, "hex", "utf8");
      decrypted += decipher.final("utf8");
      return decrypted;
    } catch (err) {
      logger.error("[DECRYPT ERROR]: Invalid cookie data");
      return null;
    }
  };
  \<close>
  \<open>decrypt_body\<close> is the \<^verbatim>\<open>try\<close> block, its exceptions as \<open>Inl\<close>; the string decoder
  of a decipher carries an unfinished UTF-8 sequence from \<^verbatim>\<open>update\<close> over to
  \<^verbatim>\<open>final\<close>, so the two pieces of text are the decoding of the two pieces of bytes
  joined. The test Node makes of a \<^verbatim>\<open>'hex'\<close> input is on the \<^verbatim>\<open>length\<close> of the string,
  which is the length of the token. \<open>decrypt\<close> adds the \<^verbatim>\<open>catch\<close>: \<open>None\<close> is \<^verbatim>\<open>null\<close>.
\<close>

definition decrypt_body :: "crypto \<Rightarrow> token \<Rightarrow> crypto_error + utf8_text" where
  "decrypt_body cc text =
     (let decipher = createDecipheriv (SECRET_KEY cc) (IV cc)
      in if odd (length text) then Inl InvalidHexLength
         else
           (let (out1, decipher1) = decipher_update decipher (hex_decode text)
            in case decipher_final decipher1 of
                 Inl e \<Rightarrow> Inl e
               | Inr out2 \<Rightarrow> Inr (utf8_decode (out1 @ out2))))"

definition decrypt :: "crypto \<Rightarrow> token \<Rightarrow> utf8_text option" where
  "decrypt cc text =
     (case decrypt_body cc text of Inl err \<Rightarrow> None | Inr decrypted \<Rightarrow> Some decrypted)"

section \<open>Abuse guard: rate counting and IP blocking\<close>

text \<open>
  Both balancers keep two process-wide structures:
  \<^verbatim>\<open>const requestCounts = new Map();\<close> and \<^verbatim>\<open>const blockedIPs = new Set();\<close>.
  A JavaScript \<^verbatim>\<open>Map\<close> keeps its entries in insertion order with distinct keys; it is an
  association list here (\<open>AList.update\<close> overwrites in place or appends, as
  \<^verbatim>\<open>Map.prototype.set\<close> does). \<^verbatim>\<open>Date.now()\<close> and the counter are integers.
\<close>

record rate_record =
  count :: int
  startTime :: int

record guard_state =
  requestCounts :: "(string \<times> rate_record) list"
  blockedIPs :: "string set"

definition RATE_LIMIT :: int where
  "RATE_LIMIT = 100"

definition TIME_WINDOW :: int where
  "TIME_WINDOW = 60 * 1000"

text \<open>What a middleware does with a request: call \<^verbatim>\<open>next()\<close>, or answer it.\<close>

datatype mw_result = Next | Respond nat string

definition blocked_message :: string where
  "blocked_message = ''Your IP has been blocked due to excessive requests.''"

text \<open>
  \<^verbatim>\<open>
  app.use((req, res, next) => {
    const ip = req.ip || req.connection.remoteAddress;
    if (blockedIPs.has(ip)) {
      return res.status(403).send("Your IP has been blocked due to excessive requests.");
    }
    next();
  });
  \<close>
\<close>

definition blockedIPMiddleware :: "string \<Rightarrow> guard_state \<Rightarrow> mw_result \<times> guard_state" where
  "blockedIPMiddleware ip st =
     (if ip \<in> blockedIPs st then (Respond 403 blocked_message, st) else (Next, st))"

text \<open>
  \<^verbatim>\<open>
  app.use((req, res, next) => {
    const ip = req.ip || req.connection.remoteAddress;
    const now = Date.now();
    if (!requestCounts.has(ip)) {
      requestCounts.set(ip, { count: 1, startTime: now });
    } else {
      const data = requestCounts.get(ip);
      data.count++;
      if (now - data.startTime > TIME_WINDOW) {
        requestCounts.set(ip, { count: 1, startTime: now });
      } else if (data.count > RATE_LIMIT) {
        blockedIPs.add(ip);
        return res.status(403).send("Your IP has been blocked due to excessive requests.");
      }
    }
    next();
  });
  \<close>
  \<^verbatim>\<open>data\<close> is the object stored in the map, so \<^verbatim>\<open>data.count++\<close> changes the stored record
  before either test is made.
\<close>

definition rateLimitMiddleware ::
  "string \<Rightarrow> int \<Rightarrow> guard_state \<Rightarrow> mw_result \<times> guard_state" where
  "rateLimitMiddleware ip now st =
     (case map_of (requestCounts st) ip of
        None \<Rightarrow>
          (Next, st\<lparr>requestCounts :=
                      AList.update ip \<lparr>count = 1, startTime = now\<rparr> (requestCounts st)\<rparr>)
      | Some d \<Rightarrow>
          (let data = d\<lparr>count := count d + 1\<rparr>;
               st1 = st\<lparr>requestCounts := AList.update ip data (requestCounts st)\<rparr>
           in if now - startTime data > TIME_WINDOW then
                (Next, st1\<lparr>requestCounts :=
                             AList.update ip \<lparr>count = 1, startTime = now\<rparr> (requestCounts st1)\<rparr>)
              else if count data > RATE_LIMIT then
                (Respond 403 blocked_message, st1\<lparr>blockedIPs := insert ip (blockedIPs st1)\<rparr>)
              else (Next, st1)))"

text \<open>The two middlewares in the order \<^verbatim>\<open>app.use\<close> registers them.\<close>

definition abuseGuard :: "string \<Rightarrow> int \<Rightarrow> guard_state \<Rightarrow> mw_result \<times> guard_state" where
  "abuseGuard ip now st =
     (case blockedIPMiddleware ip st of
        (Next, st1) \<Rightarrow> rateLimitMiddleware ip now st1
      | (Respond code body, st1) \<Rightarrow> (Respond code body, st1))"

text \<open>
  The round-robin variant also runs, every \<^verbatim>\<open>TIME_WINDOW\<close> milliseconds:
  \<^verbatim>\<open>
  setInterval(() => {
    const now = Date.now();
    for (const [ip, data] of requestCounts.entries()) {
      if (now - data.startTime > TIME_WINDOW) {
        requestCounts.delete(ip);
        blockedIPs.delete(ip);
      }
    }
  }, TIME_WINDOW);
  \<close>
  One run is a loop over the entries. Deleting the entry under the iterator leaves
  the entries still to come in place, so the loop visits the entries the map had when
  the run started.
\<close>

definition reap_entry :: "int \<Rightarrow> guard_state \<Rightarrow> string \<times> rate_record \<Rightarrow> guard_state" where
  "reap_entry now st e =
     (if now - startTime (snd e) > TIME_WINDOW then
        st\<lparr>requestCounts := AList.delete (fst e) (requestCounts st),
           blockedIPs := blockedIPs st - {fst e}\<rparr>
      else st)"

definition reaper :: "int \<Rightarrow> guard_state \<Rightarrow> guard_state" where
  "reaper now st = foldl (reap_entry now) st (requestCounts st)"

text \<open>
  What the guard sees over time: requests, each with the client's address and the
  clock reading of its handler, and, in the round-robin variant, runs of the reaper.
  \<open>serve\<close> gives the answer to each request, in order.
\<close>

datatype guard_event = Request string int | Reap int

fun serve :: "guard_event list \<Rightarrow> guard_state \<Rightarrow> (string \<times> mw_result) list \<times> guard_state" where
  "serve [] st = ([], st)"
| "serve (Request ip now # evs) st =
     (let (r, st1) = abuseGuard ip now st; (rs, st2) = serve evs st1 in ((ip, r) # rs, st2))"
| "serve (Reap now # evs) st = serve evs (reaper now st)"


definition outcomes_of :: "string \<Rightarrow> (string \<times> mw_result) list \<Rightarrow> mw_result list" where
  "outcomes_of ip rs = map snd (filter (\<lambda>r. fst r = ip) rs)"

fun is_request_of :: "string \<Rightarrow> guard_event \<Rightarrow> bool" where
  "is_request_of ip (Request ip' now) = (ip' = ip)"
| "is_request_of ip (Reap now) = False"

definition requests_of :: "string \<Rightarrow> guard_event list \<Rightarrow> nat" where
  "requests_of ip evs = length (filter (is_request_of ip) evs)"



section \<open>The server pool, health checks and selection\<close>

text \<open>
  \<^verbatim>\<open>const servers = require("./config/server");\<close> is an array of objects with a
  \<^verbatim>\<open>url\<close>, an \<^verbatim>\<open>active\<close> flag and, in \<^verbatim>\<open>loadBalancer.js\<close>, a numeric \<^verbatim>\<open>connections\<close>
  counter. The array never changes length; the handlers and the health check mutate
  the objects in place. A reference to a server object is its position in the array.
\<close>

record server =
  url :: string
  active :: bool
  connections :: int

subsection \<open>Health check\<close>

text \<open>
  \<^verbatim>\<open>
  module.exports = async function healthCheck(servers) {
    for (const server of servers) {
      try {
        const response = await axios.get(`${server.url}/health`);
        server.active = response.status === 200;
      } catch (err) {
        server.active = false;
      }
    }
  };
  \<close>
  The request is made without a timeout, so its promise resolves with a status,
  rejects, or stays pending. The loop awaits each probe before it makes the next one.
  The result is the pool as the run leaves it, and whether the run came to its end.
\<close>

datatype probe = Resolved nat | Rejected | Pending

fun healthCheck :: "(string \<Rightarrow> probe) \<Rightarrow> server list \<Rightarrow> server list \<times> bool" where
  "healthCheck get [] = ([], True)"
| "healthCheck get (server # rest) =
     (case get (url server @ ''/health'') of
        Resolved status \<Rightarrow>
          (let (rest1, finished) = healthCheck get rest
           in (server\<lparr>active := (status = 200)\<rparr> # rest1, finished))
      | Rejected \<Rightarrow>
          (let (rest1, finished) = healthCheck get rest
           in (server\<lparr>active := False\<rparr> # rest1, finished))
      | Pending \<Rightarrow> (server # rest, False))"

definition settles :: "(string \<Rightarrow> probe) \<Rightarrow> server \<Rightarrow> bool" where
  "settles get server = (get (url server @ ''/health'') \<noteq> Pending)"

definition probed :: "(string \<Rightarrow> probe) \<Rightarrow> server \<Rightarrow> server" where
  "probed get server = server\<lparr>active := (get (url server @ ''/health'') = Resolved 200)\<rparr>"

subsection \<open>Selection\<close>

text \<open>\<^verbatim>\<open>servers.filter((server) => server.active)\<close>, as references in pool order.\<close>

definition activeServers :: "server list \<Rightarrow> nat list" where
  "activeServers servers = filter (\<lambda>i. active (servers ! i)) [0..<length servers]"

datatype js_error = TypeError

text \<open>\<^verbatim>\<open>Array.prototype.reduce\<close> without an initial value: the first element starts the
  accumulator; on an empty array it throws.\<close>

fun reduce :: "('a \<Rightarrow> 'a \<Rightarrow> 'a) \<Rightarrow> 'a list \<Rightarrow> js_error + 'a" where
  "reduce f [] = Inl TypeError"
| "reduce f (x # xs) = Inr (foldl f x xs)"

text \<open>
  \<^verbatim>\<open>
  const getLeastLoadedServer = () => {
    const activeServers = servers.filter((server) => server.active);
    if (activeServers.length === 0) return null;
    return activeServers.reduce((prev, curr) =>
      prev.connections < curr.connections ? prev : curr
    );
  };
  \<close>
\<close>

definition getLeastLoadedServer :: "server list \<Rightarrow> nat option" where
  "getLeastLoadedServer servers =
     (if length (activeServers servers) = 0 then None
      else case reduce (\<lambda>prev curr.
                  if connections (servers ! prev) < connections (servers ! curr) then prev else curr)
                (activeServers servers) of
             Inl e \<Rightarrow> None
           | Inr server \<Rightarrow> Some server)"

text \<open>\<^verbatim>\<open>Array.prototype.find\<close>: the first element that satisfies the test.\<close>

fun find_first :: "('a \<Rightarrow> bool) \<Rightarrow> 'a list \<Rightarrow> nat option" where
  "find_first P [] = None"
| "find_first P (x # xs) = (if P x then Some 0 else map_option Suc (find_first P xs))"

text \<open>
  \<^verbatim>\<open>
  const stickyServerEncrypted = req.cookies[COOKIE_NAME];
  if (stickyServerEncrypted) {
    const stickyServer = decrypt(stickyServerEncrypted);
    assignedServer = servers.find(
      (server) => server.url === stickyServer && server.active
    );
  }
  \<close>
  An empty cookie is falsy, and \<^verbatim>\<open>null\<close> equals no \<^verbatim>\<open>url\<close>.
\<close>

definition stickyServer :: "crypto \<Rightarrow> token option \<Rightarrow> server list \<Rightarrow> nat option" where
  "stickyServer cc cookie servers =
     (case cookie of
        None \<Rightarrow> None
      | Some stickyServerEncrypted \<Rightarrow>
          if stickyServerEncrypted = [] then None
          else (case decrypt cc stickyServerEncrypted of
                  None \<Rightarrow> None
                | Some sticky \<Rightarrow>
                    find_first (\<lambda>server. url server = sticky \<and> active server) servers))"

section \<open>The least-connections balancer\<close>

text \<open>
  The proxy handler of \<^verbatim>\<open>loadBalancer.js\<close>: the sticky server if there is one, else
  the least loaded one with a fresh cookie, else 503. Then
  \<^verbatim>\<open>
  assignedServer.connections++;
  proxy.web(req, res, { target: assignedServer.url, ... }, (err) => {
    assignedServer.connections--;
    ...
    if (!res.headersSent) {
      res.status(502).json({ error: "Bad Gateway", message: err.message });
    }
  });
  \<close>
  The function given to \<^verbatim>\<open>proxy.web\<close> is its error callback: the proxy calls it when
  forwarding fails, and not when the backend's response has been passed on.
\<close>

datatype dispatch = ServiceUnavailable | Forward nat "token option"

definition connect :: "nat \<Rightarrow> server list \<Rightarrow> server list" where
  "connect i servers = servers[i := (servers ! i)\<lparr>connections := connections (servers ! i) + 1\<rparr>]"

definition disconnect :: "nat \<Rightarrow> server list \<Rightarrow> server list" where
  "disconnect i servers = servers[i := (servers ! i)\<lparr>connections := connections (servers ! i) - 1\<rparr>]"

definition proxyHandler ::
  "crypto \<Rightarrow> token option \<Rightarrow> server list \<Rightarrow> dispatch \<times> server list" where
  "proxyHandler cc cookie servers =
     (case stickyServer cc cookie servers of
        Some assignedServer \<Rightarrow> (Forward assignedServer None, connect assignedServer servers)
      | None \<Rightarrow>
          (case getLeastLoadedServer servers of
             None \<Rightarrow> (ServiceUnavailable, servers)
           | Some assignedServer \<Rightarrow>
               (Forward assignedServer (Some (encrypt cc (url (servers ! assignedServer)))),
                connect assignedServer servers)))"

datatype proxy_outcome = Served | Failed string

definition proxyCallback :: "nat \<Rightarrow> proxy_outcome \<Rightarrow> server list \<Rightarrow> server list" where
  "proxyCallback assignedServer outcome servers =
     (case outcome of
        Served \<Rightarrow> servers
      | Failed message \<Rightarrow> disconnect assignedServer servers)"

text \<open>
  A run of the balancer: requests come in (with their cookie, if any) and forwards
  settle. \<open>in_flight\<close> is not program state: it lists the targets of the forwards that
  were dispatched and have not settled, to compare the counters with.
\<close>

datatype lb_event = Incoming "token option" | Settled nat proxy_outcome

record lb_state =
  pool :: "server list"
  in_flight :: "nat list"

fun lb_step :: "crypto \<Rightarrow> lb_state \<Rightarrow> lb_event \<Rightarrow> lb_state" where
  "lb_step cc st (Incoming cookie) =
     (case proxyHandler cc cookie (pool st) of
        (ServiceUnavailable, servers) \<Rightarrow> st\<lparr>pool := servers\<rparr>
      | (Forward i c, servers) \<Rightarrow> st\<lparr>pool := servers, in_flight := i # in_flight st\<rparr>)"
| "lb_step cc st (Settled i outcome) =
     (if i \<in> set (in_flight st)
      then st\<lparr>pool := proxyCallback i outcome (pool st), in_flight := remove1 i (in_flight st)\<rparr>
      else st)"

definition lb_run :: "crypto \<Rightarrow> lb_event list \<Rightarrow> lb_state \<Rightarrow> lb_state" where
  "lb_run cc evs st = foldl (lb_step cc) st evs"

section \<open>The round-robin balancer\<close>

text \<open>
  \<^verbatim>\<open>
  let currentServerIndex = 0;
  ...
  if (!assignedServer) {
    const activeServers = servers.filter((server) => server.active);
    if (activeServers.length === 0) {
      return res.status(503).send("Service Unavailable");
    }
    assignedServer = activeServers[currentServerIndex];
    currentServerIndex = (currentServerIndex + 1) % activeServers.length;
    const encryptedServer = encrypt(assignedServer.url);
    res.cookie(COOKIE_NAME, encryptedServer, { httpOnly: true });
  }
  \<close>
  Indexing an array past its end gives \<^verbatim>\<open>undefined\<close>, and \<^verbatim>\<open>assignedServer.url\<close> then
  throws a \<^verbatim>\<open>TypeError\<close>, after the cursor has been advanced.
\<close>

record rr_state =
  rr_servers :: "server list"
  currentServerIndex :: nat

definition roundRobinHandler ::
  "crypto \<Rightarrow> token option \<Rightarrow> rr_state \<Rightarrow> (js_error + dispatch) \<times> rr_state" where
  "roundRobinHandler cc cookie st =
     (case stickyServer cc cookie (rr_servers st) of
        Some assignedServer \<Rightarrow> (Inr (Forward assignedServer None), st)
      | None \<Rightarrow>
          (let active_now = activeServers (rr_servers st)
           in if length active_now = 0 then (Inr ServiceUnavailable, st)
              else
                (let assignedServer =
                       (if currentServerIndex st < length active_now
                        then Some (active_now ! currentServerIndex st) else None);
                     st1 = st\<lparr>currentServerIndex :=
                                (currentServerIndex st + 1) mod length active_now\<rparr>
                 in case assignedServer of
                      None \<Rightarrow> (Inl TypeError, st1)
                    | Some i \<Rightarrow>
                        (Inr (Forward i (Some (encrypt cc (url (rr_servers st ! i))))), st1))))"

text \<open>A run: requests, and health check cycles (every ten seconds) between them.\<close>

datatype rr_event = Arrives "token option" | HealthCycle "string \<Rightarrow> probe"

fun rr_run ::
  "crypto \<Rightarrow> rr_event list \<Rightarrow> rr_state \<Rightarrow> (js_error + dispatch) list \<times> rr_state" where
  "rr_run cc [] st = ([], st)"
| "rr_run cc (Arrives cookie # evs) st =
     (let (r, st1) = roundRobinHandler cc cookie st; (rs, st2) = rr_run cc evs st1
      in (r # rs, st2))"
| "rr_run cc (HealthCycle get # evs) st =
     rr_run cc evs (st\<lparr>rr_servers := fst (healthCheck get (rr_servers st))\<rparr>)"

section \<open>Example configuration\<close>

text \<open>Three backends as the README configures them, a key and an initialisation
  vector of the right lengths, and two behaviours of the backends under probing.\<close>

definition backendA :: server where
  "backendA = \<lparr>url = ''http://localhost:5000'', active = True, connections = 0\<rparr>"

definition backendB :: server where
  "backendB = \<lparr>url = ''http://localhost:5001'', active = True, connections = 0\<rparr>"

definition backendC :: server where
  "backendC = \<lparr>url = ''http://localhost:5002'', active = True, connections = 0\<rparr>"

text \<open>\<^verbatim>\<open>loadBalancer.js\<close> gives its proxy an \<^verbatim>\<open>https.Agent\<close>: a backend it can forward to
  has an \<^verbatim>\<open>https:\<close> url.\<close>

definition secureA :: server where
  "secureA = \<lparr>url = ''https://localhost:5000'', active = True, connections = 0\<rparr>"


definition only_A_up :: "string \<Rightarrow> probe" where
  "only_A_up u = (if u = ''http://localhost:5000/health'' then Resolved 200 else Rejected)"

definition A_hangs :: "string \<Rightarrow> probe" where
  "A_hangs u = (if u = ''http://localhost:5000/health'' then Pending else Resolved 200)"

definition client :: string where
  "client = ''203.0.113.7''"

text \<open>
  The round keys of the example key; the token of \<^verbatim>\<open>http://localhost:5000\<close> under the
  example key and vector; the same token with its second digit changed from \<open>c\<close> to
  \<open>d\<close>, and the bytes that token deciphers to.
\<close>

definition example_round_keys :: "byte list list" where
  "example_round_keys =
     [[0x00, 0x01, 0x02, 0x03, 0x04, 0x05, 0x06, 0x07, 0x08, 0x09, 0x0a, 0x0b, 0x0c, 0x0d, 0x0e, 0x0f],
      [0x10, 0x11, 0x12, 0x13, 0x14, 0x15, 0x16, 0x17, 0x18, 0x19, 0x1a, 0x1b, 0x1c, 0x1d, 0x1e, 0x1f],
      [0xa5, 0x73, 0xc2, 0x9f, 0xa1, 0x76, 0xc4, 0x98, 0xa9, 0x7f, 0xce, 0x93, 0xa5, 0x72, 0xc0, 0x9c],
      [0x16, 0x51, 0xa8, 0xcd, 0x02, 0x44, 0xbe, 0xda, 0x1a, 0x5d, 0xa4, 0xc1, 0x06, 0x40, 0xba, 0xde],
      [0xae, 0x87, 0xdf, 0xf0, 0x0f, 0xf1, 0x1b, 0x68, 0xa6, 0x8e, 0xd5, 0xfb, 0x03, 0xfc, 0x15, 0x67],
      [0x6d, 0xe1, 0xf1, 0x48, 0x6f, 0xa5, 0x4f, 0x92, 0x75, 0xf8, 0xeb, 0x53, 0x73, 0xb8, 0x51, 0x8d],
      [0xc6, 0x56, 0x82, 0x7f, 0xc9, 0xa7, 0x99, 0x17, 0x6f, 0x29, 0x4c, 0xec, 0x6c, 0xd5, 0x59, 0x8b],
      [0x3d, 0xe2, 0x3a, 0x75, 0x52, 0x47, 0x75, 0xe7, 0x27, 0xbf, 0x9e, 0xb4, 0x54, 0x07, 0xcf, 0x39],
      [0x0b, 0xdc, 0x90, 0x5f, 0xc2, 0x7b, 0x09, 0x48, 0xad, 0x52, 0x45, 0xa4, 0xc1, 0x87, 0x1c, 0x2f],
      [0x45, 0xf5, 0xa6, 0x60, 0x17, 0xb2, 0xd3, 0x87, 0x30, 0x0d, 0x4d, 0x33, 0x64, 0x0a, 0x82, 0x0a],
      [0x7c, 0xcf, 0xf7, 0x1c, 0xbe, 0xb4, 0xfe, 0x54, 0x13, 0xe6, 0xbb, 0xf0, 0xd2, 0x61, 0xa7, 0xdf],
      [0xf0, 0x1a, 0xfa, 0xfe, 0xe7, 0xa8, 0x29, 0x79, 0xd7, 0xa5, 0x64, 0x4a, 0xb3, 0xaf, 0xe6, 0x40],
      [0x25, 0x41, 0xfe, 0x71, 0x9b, 0xf5, 0x00, 0x25, 0x88, 0x13, 0xbb, 0xd5, 0x5a, 0x72, 0x1c, 0x0a],
      [0x4e, 0x5a, 0x66, 0x99, 0xa9, 0xf2, 0x4f, 0xe0, 0x7e, 0x57, 0x2b, 0xaa, 0xcd, 0xf8, 0xcd, 0xea],
      [0x24, 0xfc, 0x79, 0xcc, 0xbf, 0x09, 0x79, 0xe9, 0x37, 0x1a, 0xc2, 0x3c, 0x6d, 0x68, 0xde, 0x36]]"




section \<open>Auxiliary facts\<close>





















lemma blocks_Nil [simp]: "blocks n [] = []"
  by (simp add: blocks.simps)














lemma length_cbc_encrypt: "length (cbc_encrypt E prev ps) = length ps"
  by (induction ps arbitrary: prev) (simp_all add: Let_def)


































lemma length_cbc_decrypt: "length (cbc_decrypt D prev cs) = length cs"
  by (induction cs arbitrary: prev) simp_all










lemma requests_of_simps [simp]:
  "requests_of ip [] = 0"
  "requests_of ip (Request ip' now # evs) = (if ip' = ip then Suc (requests_of ip evs) else requests_of ip evs)"
  "requests_of ip (Reap now # evs) = requests_of ip evs"
  by (simp_all add: requests_of_def)

lemma outcomes_of_simps [simp]:
  "outcomes_of ip [] = []"
  "outcomes_of ip ((ip', r) # rs) = (if ip' = ip then r # outcomes_of ip rs else outcomes_of ip rs)"
  by (simp_all add: outcomes_of_def)

lemma serve_Request:
  "serve (Request ip now # evs) st =
     ((ip, fst (abuseGuard ip now st)) # fst (serve evs (snd (abuseGuard ip now st))),
      snd (serve evs (snd (abuseGuard ip now st))))"
  by (simp add: split_beta)









lemma abuseGuard_keeps_blocked: "blockedIPs st \<subseteq> blockedIPs (snd (abuseGuard ip now st))"
  by (auto simp: abuseGuard_def blockedIPMiddleware_def rateLimitMiddleware_def Let_def
      split: option.splits)



lemma foldl_least:
  fixes key :: "'a \<Rightarrow> int"
  defines "f \<equiv> \<lambda>prev curr. if key prev < key curr then prev else curr"
  shows "\<exists>ys zs. x # xs = ys @ foldl f x xs # zs
           \<and> (\<forall>y\<in>set ys. key (foldl f x xs) \<le> key y)
           \<and> (\<forall>z\<in>set zs. key (foldl f x xs) < key z)"
proof (induction xs rule: rev_induct)
  case Nil
  have "[x] = [] @ x # [] \<and> (\<forall>y\<in>set []. key x \<le> key y) \<and> (\<forall>z\<in>set []. key x < key z)"
    by simp
  then show ?case
    unfolding foldl_Nil by (intro exI)
next
  case (snoc c xs)
  define r where "r = foldl f x xs"
  from snoc obtain ys zs where d: "x # xs = ys @ r # zs"
    and lo: "\<forall>y\<in>set ys. key r \<le> key y" and hi: "\<forall>z\<in>set zs. key r < key z"
    unfolding r_def by blast
  have step: "foldl f x (xs @ [c]) = (if key r < key c then r else c)"
    by (simp add: r_def f_def)
  show ?case
  proof (cases "key r < key c")
    case True
    have "x # xs @ [c] = ys @ r # (zs @ [c]) \<and> (\<forall>y\<in>set ys. key r \<le> key y)
        \<and> (\<forall>z\<in>set (zs @ [c]). key r < key z)"
      using d lo hi True by simp
    then have "\<exists>ys' zs'. x # xs @ [c] = ys' @ r # zs' \<and> (\<forall>y\<in>set ys'. key r \<le> key y)
        \<and> (\<forall>z\<in>set zs'. key r < key z)"
      by (intro exI)
    then show ?thesis
      unfolding step by (simp only: True if_True)
  next
    case False
    have all: "\<forall>y\<in>set (x # xs). key c \<le> key y"
    proof
      fix y assume "y \<in> set (x # xs)"
      then have "y \<in> set ys \<or> y = r \<or> y \<in> set zs"
        unfolding d by auto
      then have "key r \<le> key y"
        using lo hi by force
      then show "key c \<le> key y"
        using False by simp
    qed
    have "x # xs @ [c] = (x # xs) @ c # [] \<and> (\<forall>y\<in>set (x # xs). key c \<le> key y)
        \<and> (\<forall>z\<in>set []. key c < key z)"
      using all by simp
    then have "\<exists>ys' zs'. x # xs @ [c] = ys' @ c # zs' \<and> (\<forall>y\<in>set ys'. key c \<le> key y)
        \<and> (\<forall>z\<in>set zs'. key c < key z)"
      by (intro exI)
    then show ?thesis
      unfolding step by (simp only: False if_False)
  qed
qed

lemma sorted_split:
  assumes "sorted_wrt (<) (ys @ (r::nat) # zs)"
  shows "(\<forall>y\<in>set ys. y < r) \<and> (\<forall>z\<in>set zs. r < z)"
  using assms by (auto simp: sorted_wrt_append)

lemma activeServers_set: "set (activeServers servers) = {i. i < length servers \<and> active (servers ! i)}"
  by (auto simp: activeServers_def)

lemma activeServers_sorted: "sorted_wrt (<) (activeServers servers)"
  by (simp add: activeServers_def sorted_wrt_filter)

lemma least_loaded:
  assumes "\<exists>i<length servers. active (servers ! i)"
  shows "\<exists>r. getLeastLoadedServer servers = Some r \<and> r < length servers \<and> active (servers ! r) \<and>
           (\<forall>j<length servers. active (servers ! j) \<longrightarrow>
                connections (servers ! r) \<le> connections (servers ! j) \<and>
                (connections (servers ! j) = connections (servers ! r) \<longrightarrow> j \<le> r))"
proof -
  define key where "key = (\<lambda>i. connections (servers ! i))"
  from assms obtain i where "i < length servers" "active (servers ! i)"
    by blast
  then have "i \<in> set (activeServers servers)"
    by (simp add: activeServers_set)
  then have ne: "activeServers servers \<noteq> []"
    by (cases "activeServers servers") simp_all
  then obtain x xs where a: "activeServers servers = x # xs"
    by (cases "activeServers servers") auto
  define r where "r = foldl (\<lambda>prev curr. if key prev < key curr then prev else curr) x xs"
  have g: "getLeastLoadedServer servers = Some r"
    by (simp add: getLeastLoadedServer_def a r_def key_def)
  from foldl_least[where key = key and x = x and xs = xs]
  obtain ys zs where d: "x # xs = ys @ r # zs"
    and lo: "\<forall>y\<in>set ys. key r \<le> key y" and hi: "\<forall>z\<in>set zs. key r < key z"
    unfolding r_def[symmetric] by blast
  have s: "(\<forall>y\<in>set ys. y < r) \<and> (\<forall>z\<in>set zs. r < z)"
    using activeServers_sorted[of servers] unfolding a d by (rule sorted_split)
  have mem: "set (ys @ r # zs) = {i. i < length servers \<and> active (servers ! i)}"
    using activeServers_set[of servers] unfolding a d .
  have "r \<in> set (ys @ r # zs)" by simp
  then have r: "r < length servers \<and> active (servers ! r)"
    unfolding mem by simp
  have "\<forall>j<length servers. active (servers ! j) \<longrightarrow>
          key r \<le> key j \<and> (key j = key r \<longrightarrow> j \<le> r)"
  proof (intro allI impI)
    fix j assume "j < length servers" "active (servers ! j)"
    then have "j \<in> set (ys @ r # zs)"
      unfolding mem by simp
    then consider "j \<in> set ys" | "j = r" | "j \<in> set zs" by auto
    then show "key r \<le> key j \<and> (key j = key r \<longrightarrow> j \<le> r)"
    proof cases
      case 1
      then have "key r \<le> key j" "j < r" using lo s by auto
      then show ?thesis by simp
    next
      case 2
      then show ?thesis by simp
    next
      case 3
      then have "key r < key j" using hi by auto
      then show ?thesis by simp
    qed
  qed
  then have "\<forall>j<length servers. active (servers ! j) \<longrightarrow>
                connections (servers ! r) \<le> connections (servers ! j) \<and>
                (connections (servers ! j) = connections (servers ! r) \<longrightarrow> j \<le> r)"
    unfolding key_def .
  with g r show ?thesis by blast
qed

lemma healthCheck_sequential_aux:
  "healthCheck get servers =
     (map (probed get) (takeWhile (settles get) servers) @ dropWhile (settles get) servers,
      list_all (settles get) servers)"
proof (induction servers)
  case Nil
  then show ?case by simp
next
  case (Cons server rest)
  then show ?case
    by (cases "get (url server @ ''/health'')") (simp_all add: settles_def probed_def)
qed

section \<open>The example key at work\<close>


text \<open>
  The known-answer test of FIPS-197, Appendix C.3: under the key \<open>00 01 \<dots> 1f\<close> the
  block \<open>00 11 22 \<dots> ff\<close> is enciphered to \<open>8e a2 b7 ca 51 67 45 bf ea fc 49 90 4b 49 60 89\<close>.
\<close>

lemma encrypt_unrolled:
  "aes_encrypt_block [k0, k1, k2, k3, k4, k5, k6, k7, k8, k9, k10, k11, k12, k13, k14] s =
     aes_final_round k14 (aes_round k13 (aes_round k12 (aes_round k11 (aes_round k10
       (aes_round k9 (aes_round k8 (aes_round k7 (aes_round k6 (aes_round k5 (aes_round k4
       (aes_round k3 (aes_round k2 (aes_round k1 (add_round_key k0 s))))))))))))))"
  by (simp add: aes_encrypt_block_def)

lemma fips197_block:
  "aes_encrypt_block example_round_keys
     [0x00, 0x11, 0x22, 0x33, 0x44, 0x55, 0x66, 0x77, 0x88, 0x99, 0xaa, 0xbb, 0xcc, 0xdd, 0xee, 0xff] =
     [0x8e, 0xa2, 0xb7, 0xca, 0x51, 0x67, 0x45, 0xbf, 0xea, 0xfc, 0x49, 0x90, 0x4b, 0x49, 0x60, 0x89]"
  unfolding example_round_keys_def encrypt_unrolled
  by (simp add: aes_round_def aes_final_round_def add_round_key_def xor_bytes_def shift_rows_def
      sub_byte_def sbox_def mul2_def mul3_def xtime_def)




subsection \<open>The example tokens\<close>


















section \<open>The claims\<close>

subsection \<open>Requests from blocked clients\<close>

text \<open>
  C10. A request from a client identifier that is already in the blocked set is
  answered 403 by the first middleware, and the rate limiting state is left as it
  was: neither the map of records nor the blocked set changes.
\<close>

theorem blocked_request_leaves_state:
  "ip \<in> blockedIPs st \<Longrightarrow> abuseGuard ip now st = (Respond 403 blocked_message, st)"
  by (simp add: abuseGuard_def blockedIPMiddleware_def)

theorem blocked_request_leaves_state_witness:
  "client \<in> blockedIPs \<lparr>requestCounts = [(client, \<lparr>count = 101, startTime = 0\<rparr>)],
                          blockedIPs = {client}\<rparr> \<and>
   abuseGuard client 5000
     \<lparr>requestCounts = [(client, \<lparr>count = 101, startTime = 0\<rparr>)], blockedIPs = {client}\<rparr> =
   (Respond 403 blocked_message,
    \<lparr>requestCounts = [(client, \<lparr>count = 101, startTime = 0\<rparr>)], blockedIPs = {client}\<rparr>)"
  using blocked_request_leaves_state
    [of client "\<lparr>requestCounts = [(client, \<lparr>count = 101, startTime = 0\<rparr>)],
                  blockedIPs = {client}\<rparr>" 5000]
  by simp

subsection \<open>Rate limiting and the reaper\<close>





text \<open>
  C5, as the code has it. A request that arrives more than the window after the
  recorded start resets the record to count 1 and start \<open>now\<close> and is let through when
  the client is not in the blocked set. When the client is in the blocked set the
  first middleware answers 403 before the record is looked at: record and blocked set
  stay as they are. No request ever takes an identifier out of the blocked set.
\<close>

theorem window_rollover:
  assumes "map_of (requestCounts st) ip = Some d" and "now - startTime d > TIME_WINDOW"
  shows "abuseGuard ip now st =
           (if ip \<in> blockedIPs st then (Respond 403 blocked_message, st)
            else (Next, st\<lparr>requestCounts :=
                            AList.update ip \<lparr>count = 1, startTime = now\<rparr> (requestCounts st)\<rparr>))
       \<and> blockedIPs st \<subseteq> blockedIPs (snd (abuseGuard ip' now' st))"
  using assms abuseGuard_keeps_blocked[of st ip' now']
  by (simp add: abuseGuard_def blockedIPMiddleware_def rateLimitMiddleware_def Let_def)

theorem window_rollover_witness:
  "map_of (requestCounts \<lparr>requestCounts = [(client, \<lparr>count = 5, startTime = 0\<rparr>)], blockedIPs = {}\<rparr>)
     client = Some \<lparr>count = 5, startTime = 0\<rparr> \<and>
   70000 - startTime \<lparr>count = 5, startTime = 0\<rparr> > TIME_WINDOW \<and>
   abuseGuard client 70000 \<lparr>requestCounts = [(client, \<lparr>count = 5, startTime = 0\<rparr>)], blockedIPs = {}\<rparr> =
     (Next, \<lparr>requestCounts = [(client, \<lparr>count = 1, startTime = 70000\<rparr>)], blockedIPs = {}\<rparr>)"
proof -
  have h1: "map_of (requestCounts \<lparr>requestCounts = [(client, \<lparr>count = 5, startTime = 0\<rparr>)],
      blockedIPs = {}\<rparr>) client = Some \<lparr>count = 5, startTime = 0\<rparr>"
    by simp
  have h2: "70000 - startTime \<lparr>count = 5, startTime = 0\<rparr> > TIME_WINDOW"
    by (simp add: TIME_WINDOW_def)
  show ?thesis
    using h1 h2 window_rollover[OF h1 h2, of client 0] by simp
qed

text \<open>
  A client that sent 101 requests at time 0 is blocked with its record at count 101
  and start 0. Its request at time 70000, past the window, is answered 403 and the
  record is not reset, against the claim.
\<close>

theorem blocked_client_not_reset_after_window:
  "snd (serve (replicate 101 (Request client 0)) \<lparr>requestCounts = [], blockedIPs = {}\<rparr>) =
     \<lparr>requestCounts = [(client, \<lparr>count = 101, startTime = 0\<rparr>)], blockedIPs = {client}\<rparr> \<and>
   70000 - 0 > TIME_WINDOW \<and>
   abuseGuard client 70000
     \<lparr>requestCounts = [(client, \<lparr>count = 101, startTime = 0\<rparr>)], blockedIPs = {client}\<rparr> =
   (Respond 403 blocked_message,
    \<lparr>requestCounts = [(client, \<lparr>count = 101, startTime = 0\<rparr>)], blockedIPs = {client}\<rparr>)"
proof -
  have "snd (serve (replicate 101 (Request client 0)) \<lparr>requestCounts = [], blockedIPs = {}\<rparr>) =
     \<lparr>requestCounts = [(client, \<lparr>count = 101, startTime = 0\<rparr>)], blockedIPs = {client}\<rparr>"
    by code_simp
  moreover have "abuseGuard client 70000
     \<lparr>requestCounts = [(client, \<lparr>count = 101, startTime = 0\<rparr>)], blockedIPs = {client}\<rparr> =
   (Respond 403 blocked_message,
    \<lparr>requestCounts = [(client, \<lparr>count = 101, startTime = 0\<rparr>)], blockedIPs = {client}\<rparr>)"
    by (simp add: abuseGuard_def blockedIPMiddleware_def)
  ultimately show ?thesis
    by (simp add: TIME_WINDOW_def)
qed

subsection \<open>Selection, forwarding and health checks\<close>

text \<open>
  C2, as the code has it. When at least one backend is available,
  \<open>getLeastLoadedServer\<close> returns an available backend whose counter is the least among
  the available ones; among several with that least counter it returns the one that
  comes last in the pool, since the reduction keeps \<open>prev\<close> only when it is strictly
  smaller.
\<close>

theorem least_connections_last_minimum:
  assumes "\<exists>i<length servers. active (servers ! i)"
  shows "\<exists>r. getLeastLoadedServer servers = Some r \<and> r < length servers \<and> active (servers ! r) \<and>
           (\<forall>j<length servers. active (servers ! j) \<longrightarrow>
                connections (servers ! r) \<le> connections (servers ! j) \<and>
                (connections (servers ! j) = connections (servers ! r) \<longrightarrow> j \<le> r))"
  using assms by (rule least_loaded)

theorem least_connections_last_minimum_witness:
  "(\<exists>i<length [backendA\<lparr>connections := 2\<rparr>, backendB\<lparr>connections := 1\<rparr>, backendC\<lparr>connections := 1\<rparr>].
      active ([backendA\<lparr>connections := 2\<rparr>, backendB\<lparr>connections := 1\<rparr>, backendC\<lparr>connections := 1\<rparr>] ! i)) \<and>
   getLeastLoadedServer
     [backendA\<lparr>connections := 2\<rparr>, backendB\<lparr>connections := 1\<rparr>, backendC\<lparr>connections := 1\<rparr>] = Some 2"
proof -
  define servers where
    "servers = [backendA\<lparr>connections := 2\<rparr>, backendB\<lparr>connections := 1\<rparr>, backendC\<lparr>connections := 1\<rparr>]"
  have h: "\<exists>i<length servers. active (servers ! i)"
    by (rule exI[of _ 0]) (simp add: servers_def backendA_def)
  from least_connections_last_minimum[OF h] obtain r where
    g: "getLeastLoadedServer servers = Some r" and r: "r < length servers"
    and m: "\<forall>j<length servers. active (servers ! j) \<longrightarrow>
                connections (servers ! r) \<le> connections (servers ! j) \<and>
                (connections (servers ! j) = connections (servers ! r) \<longrightarrow> j \<le> r)"
    by blast
  have l: "length servers = 3" and a2: "active (servers ! 2)" and a1: "active (servers ! 1)"
    and c: "connections (servers ! 0) = 2" "connections (servers ! 1) = 1" "connections (servers ! 2) = 1"
    by (simp_all add: servers_def backendA_def backendB_def backendC_def)
  have "connections (servers ! r) \<le> 1" "connections (servers ! 2) = connections (servers ! r) \<longrightarrow> 2 \<le> r"
    using m[rule_format, of 2] a2 l c by simp_all
  moreover have "r = 0 \<or> r = 1 \<or> r = 2"
    using r l by auto
  ultimately have "r = 2"
    using c by auto
  with g h show ?thesis
    unfolding servers_def by simp
qed

text \<open>
  Two available backends with equal counters: the claim has the one registered
  first chosen (position 0); the code returns the second (position 1).
\<close>

theorem least_connections_tie_goes_to_later:
  "connections backendA = connections backendB \<and> active backendA \<and> active backendB \<and>
   getLeastLoadedServer [backendA, backendB] = Some 1"
  by (simp add: getLeastLoadedServer_def activeServers_def backendA_def backendB_def upt_conv_Cons)

text \<open>
  C1. The counter of the selected backend goes up at dispatch. It comes down in the
  error callback of \<^verbatim>\<open>proxy.web\<close> only: after a forward that succeeds the counter stays
  one too high although nothing is in flight, while after a forward that fails it is
  back at its value before the dispatch.
\<close>

theorem connections_not_released_on_success:
  "lb_run cc [Incoming None, Settled 0 Served] \<lparr>pool = [secureA], in_flight = []\<rparr> =
     \<lparr>pool = [secureA\<lparr>connections := 1\<rparr>], in_flight = []\<rparr> \<and>
   lb_run cc [Incoming None, Settled 0 (Failed ''ECONNREFUSED'')] \<lparr>pool = [secureA], in_flight = []\<rparr> =
     \<lparr>pool = [secureA], in_flight = []\<rparr>"
  by (simp add: lb_run_def proxyHandler_def stickyServer_def getLeastLoadedServer_def
      activeServers_def connect_def disconnect_def proxyCallback_def secureA_def)

text \<open>
  C3. Three backends are available and two requests without a cookie have moved the
  cursor to 2. A health check then finds only the first backend up. The next request
  without a cookie reads position 2 of an available set of size 1: \<^verbatim>\<open>undefined\<close>, and
  \<^verbatim>\<open>assignedServer.url\<close> throws.
\<close>

theorem round_robin_cursor_out_of_bounds:
  "rr_run cc [Arrives None, Arrives None, HealthCycle only_A_up, Arrives None]
      \<lparr>rr_servers = [backendA, backendB, backendC], currentServerIndex = 0\<rparr> =
    ([Inr (Forward 0 (Some (encrypt cc ''http://localhost:5000''))),
      Inr (Forward 1 (Some (encrypt cc ''http://localhost:5001''))),
      Inl TypeError],
     \<lparr>rr_servers = [backendA, backendB\<lparr>active := False\<rparr>, backendC\<lparr>active := False\<rparr>],
      currentServerIndex = 0\<rparr>)"
  by (simp add: roundRobinHandler_def stickyServer_def activeServers_def upt_conv_Cons Let_def
      only_A_up_def backendA_def backendB_def backendC_def)

text \<open>
  C9, as the code has it. One run of the health check probes the backends one after
  the other in pool order, each probe awaited before the next is made. A probe that
  settles decides the availability of its own backend only (available exactly when
  it resolves with status 200), and the run goes on to the next backend. A probe that
  never settles (no timeout is set) stops the run there: the backends before it have
  been updated, it and the backends after it keep their availability, and the run
  does not finish.
\<close>

theorem healthCheck_sequential:
  "healthCheck get servers =
     (map (probed get) (takeWhile (settles get) servers) @ dropWhile (settles get) servers,
      list_all (settles get) servers)"
  by (rule healthCheck_sequential_aux)

text \<open>
  The first backend accepts the probe and never answers; the second is marked
  unavailable but would answer 200. The second is never probed: it stays unavailable
  and the run does not finish.
\<close>

theorem hung_probe_blocks_the_others:
  "A_hangs (url backendB @ ''/health'') = Resolved 200 \<and>
   healthCheck A_hangs [backendA, backendB\<lparr>active := False\<rparr>] =
     ([backendA, backendB\<lparr>active := False\<rparr>], False)"
  by (simp add: A_hangs_def backendA_def backendB_def)

subsection \<open>Sticky tokens\<close>





end
